theory Spec2Isabelle
  imports Main "HOL-Library.Finite_Map"
begin

section \<open>Service worker: the local notification schedule (public/sw.js)\<close>

text \<open>
  The worker keeps three module-level variables: \<open>notificationInterval\<close>,
  \<open>nextNotificationTime\<close> and \<open>checkInterval\<close>. JavaScript's \<open>null\<close> is \<open>None\<close>.
  Minutes and timestamps (milliseconds since the epoch, as \<open>Date.now()\<close> returns them)
  are integers. The platform around the worker is part of the state: the table of
  running \<open>setInterval\<close> timers with the value each callback closed over, the
  notifications handed to \<open>registration.showNotification\<close>, and the messages posted to
  reply ports.
\<close>

record notification =
  title :: string
  body :: string
  icon :: string
  badge :: string
  tag :: string
  requireInteraction :: bool
  vibrate :: "nat list"

record schedule_reply =
  interval :: "int option"
  nextTime :: "int option"

record interval_timer =
  handle :: nat
  delay :: int
  intervalMs :: int

record sw_state =
  notificationInterval :: "int option"
  nextNotificationTime :: "int option"
  checkInterval :: "nat option"
  timers :: "interval_timer list"
  timer_seq :: nat
  shown :: "notification list"
  posted :: "(nat \<times> schedule_reply) list"

definition sw_init :: sw_state where
  "sw_init = \<lparr>notificationInterval = None, nextNotificationTime = None, checkInterval = None,
     timers = [], timer_seq = 0, shown = [], posted = []\<rparr>"

text \<open>
  \<open>setInterval\<close> registers a repeating timer and returns its handle, a positive
  integer that no earlier timer had: \<open>ms\<close> is the \<open>intervalMs\<close> the callback closed
  over, \<open>d\<close> the delay in milliseconds. \<open>clearInterval\<close> removes the timer with
  that handle, if there is one.
\<close>

definition setInterval :: "int \<Rightarrow> int \<Rightarrow> sw_state \<Rightarrow> nat \<times> sw_state" where
  "setInterval ms d s =
     (let h = Suc (timer_seq s)
      in (h, s\<lparr>timers := timers s @ [\<lparr>handle = h, delay = d, intervalMs = ms\<rparr>],
                timer_seq := h\<rparr>))"

definition clearInterval :: "nat \<Rightarrow> sw_state \<Rightarrow> sw_state" where
  "clearInterval h s = s\<lparr>timers := filter (\<lambda>t. handle t \<noteq> h) (timers s)\<rparr>"

definition reminder :: notification where
  "reminder = \<lparr>title = ''Reminder Notification'',
     body = ''This is your scheduled reminder!'',
     icon = ''/icon-192x192.jpg'', badge = ''/icon-192x192.jpg'', tag = ''reminder'',
     requireInteraction = False, vibrate = [200, 100, 200]\<rparr>"

definition showNotification :: "sw_state \<Rightarrow> sw_state" where
  "showNotification s = s\<lparr>shown := shown s @ [reminder]\<rparr>"

text \<open>
  \<open>stopNotificationSchedule\<close>: \<open>if (checkInterval)\<close> is false for \<open>null\<close> and for
  the number 0.
\<close>

definition stopNotificationSchedule :: "sw_state \<Rightarrow> sw_state" where
  "stopNotificationSchedule s =
     (let s1 = (case checkInterval s of
                  None \<Rightarrow> s
                | Some h \<Rightarrow> if h = 0 then s else (clearInterval h s)\<lparr>checkInterval := None\<rparr>)
      in s1\<lparr>notificationInterval := None, nextNotificationTime := None\<rparr>)"

text \<open>
  \<open>startNotificationSchedule\<close> reads the clock twice, before and after showing the
  first notification: \<open>t1\<close> and \<open>t2\<close> are the two readings.
\<close>

definition startNotificationSchedule :: "int \<Rightarrow> int \<Rightarrow> int \<Rightarrow> sw_state \<Rightarrow> sw_state" where
  "startNotificationSchedule intervalMinutes t1 t2 s =
     (let s1 = stopNotificationSchedule s;
          s2 = s1\<lparr>notificationInterval := Some intervalMinutes\<rparr>;
          ms = intervalMinutes * 60 * 1000;
          s3 = s2\<lparr>nextNotificationTime := Some t1\<rparr>;
          s4 = showNotification s3;
          s5 = s4\<lparr>nextNotificationTime := Some (t2 + ms)\<rparr>;
          (h, s6) = setInterval ms 10000 s5
      in s6\<lparr>checkInterval := Some h\<rparr>)"

text \<open>
  \<open>checkAndSendNotification\<close>: the guard \<open>!nextNotificationTime || !notificationInterval\<close>
  returns early when either variable is \<open>null\<close> or 0.
\<close>

definition checkAndSendNotification :: "int \<Rightarrow> int \<Rightarrow> sw_state \<Rightarrow> sw_state" where
  "checkAndSendNotification ms now s =
     (case nextNotificationTime s of
        None \<Rightarrow> s
      | Some t \<Rightarrow>
          (case notificationInterval s of
             None \<Rightarrow> s
           | Some m \<Rightarrow>
               if t = 0 then s
               else if m = 0 then s
               else if t \<le> now then (showNotification s)\<lparr>nextNotificationTime := Some (now + ms)\<rparr>
               else s))"

subsection \<open>Messages from the page\<close>

datatype message_data =
    START_NOTIFICATIONS int
  | STOP_NOTIFICATIONS
  | CHECK_SCHEDULE
  | OTHER_TYPE string

record message_event =
  data :: "message_data option"
  ports :: "nat list"

datatype js_error = TypeError

definition postMessage :: "nat \<Rightarrow> schedule_reply \<Rightarrow> sw_state \<Rightarrow> sw_state" where
  "postMessage p r s = s\<lparr>posted := posted s @ [(p, r)]\<rparr>"

text \<open>
  The \<open>message\<close> listener. \<open>event.ports[0]\<close> is \<open>undefined\<close> when the page sent no
  port, and calling \<open>postMessage\<close> on it throws.
\<close>

definition on_message :: "message_event \<Rightarrow> int \<Rightarrow> int \<Rightarrow> sw_state \<Rightarrow> js_error + sw_state" where
  "on_message event t1 t2 s =
     (case data event of
        None \<Rightarrow> Inr s
      | Some (START_NOTIFICATIONS intervalMinutes) \<Rightarrow>
          Inr (startNotificationSchedule intervalMinutes t1 t2 s)
      | Some STOP_NOTIFICATIONS \<Rightarrow> Inr (stopNotificationSchedule s)
      | Some CHECK_SCHEDULE \<Rightarrow>
          (case ports event of
             [] \<Rightarrow> Inl TypeError
           | p # _ \<Rightarrow>
               Inr (postMessage p \<lparr>interval = notificationInterval s,
                                    nextTime = nextNotificationTime s\<rparr> s))
      | Some (OTHER_TYPE _) \<Rightarrow> Inr s)"

subsection \<open>The worker as a transition system\<close>

text \<open>
  Two kinds of event reach the schedule: a message from the page, and a firing of a
  \<open>setInterval\<close> timer, whose callback is \<open>checkAndSendNotification(intervalMs)\<close> with
  the \<open>intervalMs\<close> of the call of \<open>startNotificationSchedule\<close> that created it. A timer
  that has been cleared does not fire. An exception thrown by the listener leaves the
  variables as they were.
\<close>

datatype sw_event =
    Message message_event int int
  | TimerFired nat int

fun find_timer :: "nat \<Rightarrow> interval_timer list \<Rightarrow> interval_timer option" where
  "find_timer h [] = None"
| "find_timer h (t # ts) = (if handle t = h then Some t else find_timer h ts)"

definition timer_fired :: "nat \<Rightarrow> int \<Rightarrow> sw_state \<Rightarrow> sw_state" where
  "timer_fired h now s =
     (case find_timer h (timers s) of
        None \<Rightarrow> s
      | Some t \<Rightarrow> checkAndSendNotification (intervalMs t) now s)"

fun step :: "sw_event \<Rightarrow> sw_state \<Rightarrow> sw_state" where
  "step (Message event t1 t2) s =
     (case on_message event t1 t2 s of Inl _ \<Rightarrow> s | Inr s' \<Rightarrow> s')"
| "step (TimerFired h now) s = timer_fired h now s"

fun run :: "sw_event list \<Rightarrow> sw_state \<Rightarrow> sw_state" where
  "run [] s = s"
| "run (e # es) s = run es (step e s)"

text \<open>\<open>Date.now()\<close> counts milliseconds from the epoch: its readings are not negative.\<close>

fun clock_ok :: "sw_event \<Rightarrow> bool" where
  "clock_ok (Message _ t1 t2) = (0 \<le> t1 \<and> 0 \<le> t2)"
| "clock_ok (TimerFired _ now) = (0 \<le> now)"

text \<open>The spec's invariant on ScheduleState: both fields set or both \<open>null\<close>.\<close>

definition schedule_consistent :: "sw_state \<Rightarrow> bool" where
  "schedule_consistent s =
     ((nextNotificationTime s = None) = (notificationInterval s = None))"

text \<open>
  What holds of every state the worker reaches: when no schedule is set there is no
  timer; when one is set there is exactly one timer, the one \<open>checkInterval\<close> names,
  and it carries the milliseconds of the current interval.
\<close>

definition timer_matches :: "sw_state \<Rightarrow> bool" where
  "timer_matches s =
     (case notificationInterval s of
        None \<Rightarrow> nextNotificationTime s = None \<and> checkInterval s = None \<and> timers s = []
      | Some m \<Rightarrow>
          nextNotificationTime s \<noteq> None \<and>
          (case checkInterval s of
             None \<Rightarrow> False
           | Some h \<Rightarrow> 0 < h \<and>
               timers s = [\<lparr>handle = h, delay = 10000, intervalMs = m * 60 * 1000\<rparr>]))"

text \<open>A schedule with a positive interval has its next fire time after the epoch.\<close>

definition deadline_positive :: "sw_state \<Rightarrow> bool" where
  "deadline_positive s =
     (case notificationInterval s of
        None \<Rightarrow> True
      | Some m \<Rightarrow>
          (case nextNotificationTime s of
             None \<Rightarrow> True
           | Some t \<Rightarrow> if 0 < m then 0 < t else True))"

subsection \<open>Clicks on a notification\<close>

text \<open>
  The \<open>notificationclick\<close> listener closes the notification, asks for the window
  clients and walks the list: the first client whose \<open>url\<close> is the string \<open>"/"\<close> and
  that has a \<open>focus\<close> method is focused; when the loop finds none, a window is opened at
  \<open>"/"\<close>, provided \<open>clients.openWindow\<close> exists. The effects are listed in the order
  the listener causes them; a client is named by its index in the list.
\<close>

record window_client =
  url :: string
  has_focus :: bool

datatype click_effect =
    CloseNotification
  | FocusClient nat
  | OpenWindow string

fun find_root_client :: "window_client list \<Rightarrow> nat \<Rightarrow> nat option" where
  "find_root_client [] i = None"
| "find_root_client (client # rest) i =
     (if url client = ''/'' \<and> has_focus client then Some i
      else find_root_client rest (Suc i))"

definition on_notificationclick :: "window_client list \<Rightarrow> bool \<Rightarrow> click_effect list" where
  "on_notificationclick clientList has_openWindow =
     CloseNotification #
       (case find_root_client clientList 0 of
          Some i \<Rightarrow> [FocusClient i]
        | None \<Rightarrow> if has_openWindow then [OpenWindow ''/''] else [])"

section \<open>Relay: subscriptions and cron jobs (backend-example.js)\<close>

text \<open>
  The relay holds \<open>subscriptions\<close>, a \<open>Map\<close> from token to
  \<open>{intervalMinutes, lastSent}\<close>, and the task table of the cron library, which
  \<open>scheduleNotification\<close> reads and writes under the token. A job is an object of the
  library: \<open>jobs\<close> lists every job created so far, a job is named by its position in
  that list, and \<open>tasks\<close> maps a token to the job stored for it. \<open>delivered\<close> records
  the messages the push service accepted.
\<close>

record subscription =
  intervalMinutes :: int
  lastSent :: int

record cron_job =
  cronExpression :: string
  job_token :: string
  job_intervalMinutes :: int
  running :: bool

record fcm_message =
  msg_token :: string
  msg_title :: string
  msg_body :: string
  data_type :: string
  data_interval :: string
  data_timestamp :: string

record relay_state =
  subscriptions :: "(string, subscription) fmap"
  jobs :: "cron_job list"
  tasks :: "(string, nat) fmap"
  delivered :: "fcm_message list"

definition relay_init :: relay_state where
  "relay_init = \<lparr>subscriptions = fmempty, jobs = [], tasks = fmempty, delivered = []\<rparr>"

text \<open>\<open>subscriptions.size\<close>: the number of keys.\<close>

definition subscriptions_size :: "relay_state \<Rightarrow> nat" where
  "subscriptions_size s = fcard (fmdom (subscriptions s))"

text \<open>Decimal digits of an integer, as a template literal and \<open>toString\<close> print it.\<close>

definition digit_char :: "nat \<Rightarrow> char" where
  "digit_char d = ''0123456789'' ! d"

fun string_of_nat :: "nat \<Rightarrow> string" where
  "string_of_nat n =
     (if n < 10 then [digit_char n]
      else string_of_nat (n div 10) @ [digit_char (n mod 10)])"

definition string_of_int :: "int \<Rightarrow> string" where
  "string_of_int i =
     (if i < 0 then CHR ''-'' # string_of_nat (nat (- i)) else string_of_nat (nat i))"

text \<open>
  The request body after \<open>express.json()\<close>: a field that is absent or \<open>null\<close> is
  \<open>None\<close>; the token is a string and the interval an integer, as the page sends them.
  \<open>parseInt\<close> of an integer is that integer.
\<close>

record request_body =
  req_token :: "string option"
  req_intervalMinutes :: "int option"

datatype response_body =
    SuccessBody string
  | ErrorBody string
  | HealthBody string nat int

record response =
  status :: nat
  json :: response_body

definition parseInt :: "int \<Rightarrow> int" where
  "parseInt n = n"

datatype relay_error = ScheduleError

definition cron_expression :: "int \<Rightarrow> string" where
  "cron_expression m =
     (if m = 1 then ''* * * * *'' else ''*/'' @ string_of_int m @ '' * * * *'')"

definition stop_job :: "nat \<Rightarrow> cron_job list \<Rightarrow> cron_job list" where
  "stop_job j js = (if j < length js then js[j := (js ! j)\<lparr>running := False\<rparr>] else js)"

text \<open>
  \<open>scheduleNotification\<close>. The cron library is not part of the repository:
  \<open>validate\<close> stands for its check of an expression, and \<open>cron.schedule\<close> throws
  on an expression it rejects. The job stored for the token, if any, has been stopped
  by then, so the state at the throw is returned with the error.
\<close>

definition scheduleNotification ::
  "(string \<Rightarrow> bool) \<Rightarrow> string \<Rightarrow> int \<Rightarrow> relay_state \<Rightarrow> (relay_error \<times> relay_state) + relay_state" where
  "scheduleNotification validate token m s =
     (let cronExpr = cron_expression m;
          s1 = (case fmlookup (tasks s) token of
                  None \<Rightarrow> s
                | Some existingJob \<Rightarrow> s\<lparr>jobs := stop_job existingJob (jobs s)\<rparr>)
      in if validate cronExpr
         then Inr (s1\<lparr>jobs := jobs s1 @
                         [\<lparr>cronExpression = cronExpr, job_token = token,
                           job_intervalMinutes = m, running = True\<rparr>],
                       tasks := fmupd token (length (jobs s1)) (tasks s1)\<rparr>)
         else Inl (ScheduleError, s1))"

text \<open>
  \<open>POST /api/subscribe\<close>. \<open>!token || !intervalMinutes\<close> holds for a missing field,
  the empty string and 0. \<open>res.json\<close> without \<open>res.status\<close> answers 200.
\<close>

definition subscribe ::
  "(string \<Rightarrow> bool) \<Rightarrow> request_body \<Rightarrow> int \<Rightarrow> relay_state \<Rightarrow> response \<times> relay_state" where
  "subscribe validate req now s =
     (case req_token req of
        None \<Rightarrow> (\<lparr>status = 400, json = ErrorBody ''Token and intervalMinutes are required''\<rparr>, s)
      | Some token \<Rightarrow>
          (case req_intervalMinutes req of
             None \<Rightarrow> (\<lparr>status = 400, json = ErrorBody ''Token and intervalMinutes are required''\<rparr>, s)
           | Some m \<Rightarrow>
               if token = [] then
                 (\<lparr>status = 400, json = ErrorBody ''Token and intervalMinutes are required''\<rparr>, s)
               else if m = 0 then
                 (\<lparr>status = 400, json = ErrorBody ''Token and intervalMinutes are required''\<rparr>, s)
               else
                 (let s1 = s\<lparr>subscriptions :=
                             fmupd token \<lparr>intervalMinutes = parseInt m, lastSent = now\<rparr>
                               (subscriptions s)\<rparr>
                  in case scheduleNotification validate token (parseInt m) s1 of
                       Inl (_, s2) \<Rightarrow> (\<lparr>status = 500, json = ErrorBody ''Failed to subscribe''\<rparr>, s2)
                     | Inr s2 \<Rightarrow> (\<lparr>status = 200, json = SuccessBody ''Subscribed successfully''\<rparr>, s2))))"

text \<open>\<open>POST /api/unsubscribe\<close>.\<close>

definition unsubscribe :: "request_body \<Rightarrow> relay_state \<Rightarrow> response \<times> relay_state" where
  "unsubscribe req s =
     (case req_token req of
        None \<Rightarrow> (\<lparr>status = 400, json = ErrorBody ''Token is required''\<rparr>, s)
      | Some token \<Rightarrow>
          if token = [] then (\<lparr>status = 400, json = ErrorBody ''Token is required''\<rparr>, s)
          else (\<lparr>status = 200, json = SuccessBody ''Unsubscribed successfully''\<rparr>,
                s\<lparr>subscriptions := fmdrop token (subscriptions s)\<rparr>))"

text \<open>
  \<open>GET /health\<close>. The timestamp is kept as the clock reading, not printed in ISO
  form.
\<close>

definition health :: "int \<Rightarrow> relay_state \<Rightarrow> response" where
  "health now s = \<lparr>status = 200, json = HealthBody ''ok'' (subscriptions_size s) now\<rparr>"

text \<open>
  \<open>sendNotification\<close>. The push service is outside the repository: \<open>outcome\<close> is
  what \<open>admin.messaging().send\<close> did, the message id it resolved with or the \<open>code\<close>
  of the error it rejected with (\<open>None\<close> for an error without a code). \<open>t1\<close> is the
  clock when the message is built and \<open>t2\<close> when \<open>lastSent\<close> is written.
\<close>

datatype send_outcome =
    Resolved string
  | Rejected "string option"

definition build_message :: "string \<Rightarrow> int \<Rightarrow> int \<Rightarrow> fcm_message" where
  "build_message token m t1 =
     \<lparr>msg_token = token, msg_title = ''Reminder Notification'',
      msg_body = ''This is your scheduled reminder! (Every '' @ string_of_int m @ '' minute''
                 @ (if 1 < m then ''s'' else '''') @ '')'',
      data_type = ''reminder'', data_interval = string_of_int m,
      data_timestamp = string_of_int t1\<rparr>"

definition sendNotification ::
  "string \<Rightarrow> int \<Rightarrow> send_outcome \<Rightarrow> int \<Rightarrow> int \<Rightarrow> relay_state \<Rightarrow> relay_state" where
  "sendNotification token m outcome t1 t2 s =
     (case outcome of
        Resolved _ \<Rightarrow>
          (let s1 = s\<lparr>delivered := delivered s @ [build_message token m t1]\<rparr>
           in case fmlookup (subscriptions s1) token of
                None \<Rightarrow> s1
              | Some sub \<Rightarrow>
                  s1\<lparr>subscriptions := fmupd token (sub\<lparr>lastSent := t2\<rparr>) (subscriptions s1)\<rparr>)
      | Rejected code \<Rightarrow>
          if code = Some ''messaging/invalid-registration-token''
          then s\<lparr>subscriptions := fmdrop token (subscriptions s)\<rparr>
          else if code = Some ''messaging/registration-token-not-registered''
          then s\<lparr>subscriptions := fmdrop token (subscriptions s)\<rparr>
          else s)"

text \<open>
  A tick of job \<open>j\<close>: the callback given to \<open>cron.schedule\<close> calls
  \<open>sendNotification\<close> with the token and interval it closed over. A stopped job does
  not tick.
\<close>

definition cron_tick :: "nat \<Rightarrow> send_outcome \<Rightarrow> int \<Rightarrow> int \<Rightarrow> relay_state \<Rightarrow> relay_state" where
  "cron_tick j outcome t1 t2 s =
     (if j < length (jobs s) then
        (if running (jobs s ! j)
         then sendNotification (job_token (jobs s ! j)) (job_intervalMinutes (jobs s ! j))
                outcome t1 t2 s
         else s)
      else s)"

section \<open>Properties of the schedule\<close>

lemma stop_fields:
  "notificationInterval (stopNotificationSchedule s) = None"
  "nextNotificationTime (stopNotificationSchedule s) = None"
  "shown (stopNotificationSchedule s) = shown s"
  "posted (stopNotificationSchedule s) = posted s"
  "timer_seq (stopNotificationSchedule s) = timer_seq s"
  by (simp_all add: stopNotificationSchedule_def clearInterval_def Let_def split: option.splits)

lemma start_fields:
  "notificationInterval (startNotificationSchedule m t1 t2 s) = Some m"
  "nextNotificationTime (startNotificationSchedule m t1 t2 s) = Some (t2 + m * 60 * 1000)"
  "shown (startNotificationSchedule m t1 t2 s) = shown s @ [reminder]"
  "posted (startNotificationSchedule m t1 t2 s) = posted s"
  "checkInterval (startNotificationSchedule m t1 t2 s) = Some (Suc (timer_seq s))"
  "timer_seq (startNotificationSchedule m t1 t2 s) = Suc (timer_seq s)"
  "timers (startNotificationSchedule m t1 t2 s) =
     timers (stopNotificationSchedule s) @
       [\<lparr>handle = Suc (timer_seq s), delay = 10000, intervalMs = m * 60 * 1000\<rparr>]"
  by (simp_all add: startNotificationSchedule_def setInterval_def showNotification_def
        stop_fields Let_def)

lemma stop_timers:
  "timer_matches s \<Longrightarrow> timers (stopNotificationSchedule s) = []"
  "timer_matches s \<Longrightarrow> checkInterval (stopNotificationSchedule s) = None"
  by (auto simp add: timer_matches_def stopNotificationSchedule_def clearInterval_def Let_def
        split: option.splits)

lemma stop_timer_matches: "timer_matches s \<Longrightarrow> timer_matches (stopNotificationSchedule s)"
  by (simp add: timer_matches_def stop_fields stop_timers)

lemma start_timer_matches:
  "timer_matches s \<Longrightarrow> timer_matches (startNotificationSchedule m t1 t2 s)"
  by (simp add: timer_matches_def[of "startNotificationSchedule m t1 t2 s"] start_fields stop_timers)

lemma timer_fired_timer_matches:
  "timer_matches s \<Longrightarrow> timer_matches (timer_fired h now s)"
  by (auto simp add: timer_matches_def timer_fired_def checkAndSendNotification_def
        showNotification_def split: option.splits if_splits)

lemma step_timer_matches:
  assumes "timer_matches s"
  shows "timer_matches (step e s)"
proof (cases e)
  case (Message ev t1 t2)
  with assms show ?thesis
    by (auto simp add: on_message_def stop_timer_matches start_timer_matches postMessage_def
          timer_matches_def[of "s\<lparr>posted := _\<rparr>"] timer_matches_def[of s]
          split: option.splits message_data.splits list.splits)
next
  case (TimerFired h now)
  with assms show ?thesis by (simp add: timer_fired_timer_matches)
qed

lemma run_timer_matches:
  "timer_matches s \<Longrightarrow> timer_matches (run es s)"
  by (induction es arbitrary: s) (simp_all add: step_timer_matches)

lemma init_timer_matches: "timer_matches sw_init"
  by (simp add: timer_matches_def sw_init_def)

lemma timer_fired_deadline_positive:
  "deadline_positive s \<Longrightarrow> timer_matches s \<Longrightarrow> deadline_positive (timer_fired h now s)"
  by (auto simp add: deadline_positive_def timer_matches_def timer_fired_def
        checkAndSendNotification_def showNotification_def split: option.splits if_splits)

lemma step_deadline_positive:
  assumes "deadline_positive s" "timer_matches s" "clock_ok e"
  shows "deadline_positive (step e s)"
proof (cases e)
  case (Message ev t1 t2)
  with assms show ?thesis
    by (auto simp add: on_message_def postMessage_def deadline_positive_def start_fields stop_fields
          split: option.splits message_data.splits list.splits)
next
  case (TimerFired h now)
  with assms show ?thesis by (simp add: timer_fired_deadline_positive)
qed

lemma run_deadline_positive:
  "deadline_positive s \<Longrightarrow> timer_matches s \<Longrightarrow> list_all clock_ok es \<Longrightarrow> deadline_positive (run es s)"
  by (induction es arbitrary: s) (simp_all add: step_deadline_positive step_timer_matches)

lemma init_deadline_positive: "deadline_positive sw_init"
  by (simp add: deadline_positive_def sw_init_def)

text \<open>
  C1. For every interval of \<open>m > 0\<close> minutes and every state \<open>s\<close> the worker can be
  in, \<open>startNotificationSchedule\<close> leaves the interval set to \<open>m\<close>, exactly one more
  notification shown, the next fire time at the clock reading \<open>t2\<close> plus
  \<open>m * 60000\<close>, and a single timer, the new 10-second one: whatever schedule existed
  has been cleared. A \<open>CHECK_SCHEDULE\<close> handled right after it replies with that
  interval and that next fire time, which is within 10 seconds of the query's own
  clock \<open>t3\<close> plus \<open>m * 60000\<close> when the query comes at most 10 seconds after.
\<close>

theorem start_sets_schedule:
  assumes "0 < m" and "s = run es sw_init" and "s' = startNotificationSchedule m t1 t2 s"
  shows "notificationInterval s' = Some m
    \<and> nextNotificationTime s' = Some (t2 + m * 60000)
    \<and> shown s' = shown s @ [reminder]
    \<and> timers s' = [\<lparr>handle = Suc (timer_seq s), delay = 10000, intervalMs = m * 60000\<rparr>]
    \<and> checkInterval s' = Some (Suc (timer_seq s))
    \<and> on_message \<lparr>data = Some CHECK_SCHEDULE, ports = [p]\<rparr> t3 t4 s' =
        Inr (s'\<lparr>posted := posted s' @
               [(p, \<lparr>interval = Some m, nextTime = Some (t2 + m * 60000)\<rparr>)]\<rparr>)
    \<and> (t2 \<le> t3 \<and> t3 \<le> t2 + 10000 \<longrightarrow>
         \<bar>(t2 + m * 60000) - (t3 + m * 60000)\<bar> \<le> 10000)"
proof -
  have "timer_matches s" using assms(2) by (simp add: run_timer_matches init_timer_matches)
  then show ?thesis using assms(3)
    by (simp add: start_fields stop_timers on_message_def postMessage_def)
qed

theorem start_sets_schedule_witness:
  "(0::int) < 5
   \<and> nextNotificationTime (startNotificationSchedule 5 1000 1001
         (run [Message \<lparr>data = Some (START_NOTIFICATIONS 1), ports = []\<rparr> 100 200] sw_init))
       = Some 301001
   \<and> timers (startNotificationSchedule 5 1000 1001
         (run [Message \<lparr>data = Some (START_NOTIFICATIONS 1), ports = []\<rparr> 100 200] sw_init))
       = [\<lparr>handle = 2, delay = 10000, intervalMs = 300000\<rparr>]"
  using start_sets_schedule [where m = 5 and ?t1.0 = 1000 and ?t2.0 = 1001
      and es = "[Message \<lparr>data = Some (START_NOTIFICATIONS 1), ports = []\<rparr> 100 200]",
      OF _ refl refl]
  by (simp add: sw_init_def on_message_def startNotificationSchedule_def
        stopNotificationSchedule_def setInterval_def showNotification_def)

text \<open>
  C2. In every state the worker reaches with a schedule of \<open>m > 0\<close> minutes there is a
  next fire time \<open>t\<close> and one timer \<open>h\<close>. When that timer fires at a clock reading
  \<open>now \<ge> t\<close>, exactly one notification is shown and the next fire time becomes
  \<open>now + m * 60000\<close>; when it fires at \<open>now < t\<close> the state does not change.
\<close>

theorem poll_tick_fires_once:
  assumes "list_all clock_ok es" and "s = run es sw_init"
    and "notificationInterval s = Some m" and "0 < m"
  shows "\<exists>t h. nextNotificationTime s = Some t \<and> checkInterval s = Some h
    \<and> timers s = [\<lparr>handle = h, delay = 10000, intervalMs = m * 60000\<rparr>]
    \<and> (\<forall>now. timer_fired h now s =
          (if t \<le> now
           then s\<lparr>shown := shown s @ [reminder], nextNotificationTime := Some (now + m * 60000)\<rparr>
           else s))"
proof -
  have tm: "timer_matches s" using assms(2) by (simp add: run_timer_matches init_timer_matches)
  have dp: "deadline_positive s" using assms(1,2)
    by (simp add: run_deadline_positive init_deadline_positive init_timer_matches)
  from tm dp assms(3,4) show ?thesis
    by (auto simp add: timer_matches_def deadline_positive_def timer_fired_def
          checkAndSendNotification_def showNotification_def split: option.splits)
qed

theorem poll_tick_fires_once_witness:
  "list_all clock_ok [Message \<lparr>data = Some (START_NOTIFICATIONS 1), ports = []\<rparr> 0 0]
   \<and> notificationInterval
        (run [Message \<lparr>data = Some (START_NOTIFICATIONS 1), ports = []\<rparr> 0 0] sw_init) = Some 1
   \<and> (\<exists>t h. nextNotificationTime
          (run [Message \<lparr>data = Some (START_NOTIFICATIONS 1), ports = []\<rparr> 0 0] sw_init) = Some t
        \<and> t = 60000 \<and> h = 1
        \<and> shown (timer_fired h 75000
            (run [Message \<lparr>data = Some (START_NOTIFICATIONS 1), ports = []\<rparr> 0 0] sw_init))
           = [reminder, reminder]
        \<and> nextNotificationTime (timer_fired h 75000
            (run [Message \<lparr>data = Some (START_NOTIFICATIONS 1), ports = []\<rparr> 0 0] sw_init))
           = Some 135000
        \<and> timer_fired h 59999
            (run [Message \<lparr>data = Some (START_NOTIFICATIONS 1), ports = []\<rparr> 0 0] sw_init)
           = run [Message \<lparr>data = Some (START_NOTIFICATIONS 1), ports = []\<rparr> 0 0] sw_init)"
  using poll_tick_fires_once [where m = 1
      and es = "[Message \<lparr>data = Some (START_NOTIFICATIONS 1), ports = []\<rparr> 0 0]",
      OF _ refl]
  by (simp add: sw_init_def on_message_def startNotificationSchedule_def
        stopNotificationSchedule_def setInterval_def showNotification_def)

lemma step_schedule_consistent:
  assumes "schedule_consistent s"
  shows "schedule_consistent (step e s)"
proof (cases e)
  case (Message ev t1 t2)
  with assms show ?thesis
    by (auto simp add: on_message_def postMessage_def schedule_consistent_def start_fields stop_fields
          split: option.splits message_data.splits list.splits)
next
  case (TimerFired h now)
  with assms show ?thesis
    by (auto simp add: schedule_consistent_def timer_fired_def checkAndSendNotification_def
          showNotification_def split: option.splits)
qed

lemma run_schedule_consistent:
  "schedule_consistent s \<Longrightarrow> schedule_consistent (run es s)"
  by (induction es arbitrary: s) (simp_all add: step_schedule_consistent)

text \<open>
  C3. \<open>nextNotificationTime\<close> is \<open>null\<close> exactly when \<open>notificationInterval\<close> is:
  this holds at start-up, is kept by every message and every timer firing, and so holds
  in every state the worker reaches.
\<close>

theorem schedule_state_invariant:
  "schedule_consistent sw_init
   \<and> (schedule_consistent s \<longrightarrow> schedule_consistent (step e s))
   \<and> schedule_consistent (run es sw_init)"
proof -
  have init: "schedule_consistent sw_init"
    by (simp add: schedule_consistent_def sw_init_def)
  then have "schedule_consistent (run es sw_init)"
    by (rule run_schedule_consistent)
  with init show ?thesis
    by (simp add: step_schedule_consistent)
qed

theorem schedule_state_invariant_witness:
  "schedule_consistent sw_init
   \<and> schedule_consistent (step (TimerFired 1 400000)
        (startNotificationSchedule 5 0 0 sw_init))
   \<and> schedule_consistent
        (run [Message \<lparr>data = Some (START_NOTIFICATIONS 5), ports = []\<rparr> 0 0,
              TimerFired 1 400000,
              Message \<lparr>data = Some STOP_NOTIFICATIONS, ports = []\<rparr> 500000 500000] sw_init)"
  using schedule_state_invariant [where s = "startNotificationSchedule 5 0 0 sw_init"
      and e = "TimerFired 1 400000"
      and es = "[Message \<lparr>data = Some (START_NOTIFICATIONS 5), ports = []\<rparr> 0 0,
              TimerFired 1 400000,
              Message \<lparr>data = Some STOP_NOTIFICATIONS, ports = []\<rparr> 500000 500000]"]
  by (simp add: schedule_consistent_def start_fields)

text \<open>
  C4. \<open>stopNotificationSchedule\<close> is idempotent: from any state, a second call
  changes nothing. After a call the interval and the next fire time are \<open>null\<close>, and
  from a state the worker can be in no timer is left and \<open>checkInterval\<close> is
  \<open>null\<close>. On a state that is already inactive the call changes nothing at all.
\<close>

theorem stop_idempotent:
  "stopNotificationSchedule (stopNotificationSchedule s) = stopNotificationSchedule s
   \<and> notificationInterval (stopNotificationSchedule s) = None
   \<and> nextNotificationTime (stopNotificationSchedule s) = None
   \<and> (s = run es sw_init \<longrightarrow>
         checkInterval (stopNotificationSchedule s) = None
         \<and> timers (stopNotificationSchedule s) = [])
   \<and> (notificationInterval s = None \<and> nextNotificationTime s = None \<and> checkInterval s = None
        \<longrightarrow> stopNotificationSchedule s = s)"
proof -
  have "timer_matches (run es sw_init)"
    by (simp add: run_timer_matches init_timer_matches)
  then have "s = run es sw_init \<longrightarrow>
      checkInterval (stopNotificationSchedule s) = None \<and> timers (stopNotificationSchedule s) = []"
    by (simp add: stop_timers)
  moreover have "stopNotificationSchedule (stopNotificationSchedule s) = stopNotificationSchedule s"
    by (simp add: stopNotificationSchedule_def clearInterval_def Let_def split: option.splits)
  moreover have "notificationInterval s = None \<and> nextNotificationTime s = None
      \<and> checkInterval s = None \<longrightarrow> stopNotificationSchedule s = s"
    by (simp add: stopNotificationSchedule_def)
  ultimately show ?thesis by (simp add: stop_fields)
qed

theorem stop_idempotent_witness:
  "timers (run [Message \<lparr>data = Some (START_NOTIFICATIONS 5), ports = []\<rparr> 0 0] sw_init)
     = [\<lparr>handle = 1, delay = 10000, intervalMs = 300000\<rparr>]
   \<and> timers (stopNotificationSchedule
        (run [Message \<lparr>data = Some (START_NOTIFICATIONS 5), ports = []\<rparr> 0 0] sw_init)) = []
   \<and> stopNotificationSchedule (stopNotificationSchedule
        (run [Message \<lparr>data = Some (START_NOTIFICATIONS 5), ports = []\<rparr> 0 0] sw_init))
      = stopNotificationSchedule
        (run [Message \<lparr>data = Some (START_NOTIFICATIONS 5), ports = []\<rparr> 0 0] sw_init)
   \<and> notificationInterval sw_init = None \<and> nextNotificationTime sw_init = None
   \<and> checkInterval sw_init = None \<and> stopNotificationSchedule sw_init = sw_init"
  using stop_idempotent [where
      s = "run [Message \<lparr>data = Some (START_NOTIFICATIONS 5), ports = []\<rparr> 0 0] sw_init"
      and es = "[Message \<lparr>data = Some (START_NOTIFICATIONS 5), ports = []\<rparr> 0 0]"]
    stop_idempotent [where s = sw_init and es = "[]"]
  by (simp add: sw_init_def on_message_def startNotificationSchedule_def
        stopNotificationSchedule_def setInterval_def showNotification_def)

text \<open>
  C5. In any state, a \<open>CHECK_SCHEDULE\<close> message that carries a port posts
  \<open>{interval: notificationInterval, nextTime: nextNotificationTime}\<close> on the first
  port and changes nothing else: the schedule is as it was.
\<close>

theorem check_schedule_reply:
  "on_message \<lparr>data = Some CHECK_SCHEDULE, ports = p # ps\<rparr> t1 t2 s =
     Inr (s\<lparr>posted := posted s @
            [(p, \<lparr>interval = notificationInterval s, nextTime = nextNotificationTime s\<rparr>)]\<rparr>)"
  by (simp add: on_message_def postMessage_def)

subsection \<open>Clicks on a notification: the open window is not focused\<close>

text \<open>
  C8. A click is meant to focus the app's window when one is open, as the comment in the
  listener says. The listener focuses a client only when its \<open>url\<close> is the string
  \<open>"/"\<close>: with one open, focusable window at \<open>https://example.com/\<close> it closes the
  notification and opens a second window at \<open>"/"\<close>.
\<close>

theorem click_with_open_app_opens_window:
  "on_notificationclick [\<lparr>url = ''https://example.com/'', has_focus = True\<rparr>] True
     = [CloseNotification, OpenWindow ''/'']"
  by (simp add: on_notificationclick_def)

section \<open>Properties of the relay\<close>

lemma schedule_accepts:
  "validate (cron_expression m) \<Longrightarrow>
   scheduleNotification validate token m s =
     Inr (s\<lparr>jobs := (case fmlookup (tasks s) token of
                        None \<Rightarrow> jobs s
                      | Some j \<Rightarrow> stop_job j (jobs s)) @
                     [\<lparr>cronExpression = cron_expression m, job_token = token,
                       job_intervalMinutes = m, running = True\<rparr>],
            tasks := fmupd token (length (jobs s)) (tasks s)\<rparr>)"
  by (simp add: scheduleNotification_def Let_def stop_job_def split: option.splits)

lemma subscribe_accepts:
  assumes "token \<noteq> []" and "m \<noteq> 0" and "validate (cron_expression m)"
  shows "subscribe validate \<lparr>req_token = Some token, req_intervalMinutes = Some m\<rparr> now s =
    (\<lparr>status = 200, json = SuccessBody ''Subscribed successfully''\<rparr>,
     s\<lparr>subscriptions := fmupd token \<lparr>intervalMinutes = m, lastSent = now\<rparr> (subscriptions s),
       jobs := (case fmlookup (tasks s) token of
                  None \<Rightarrow> jobs s
                | Some j \<Rightarrow> stop_job j (jobs s)) @
               [\<lparr>cronExpression = cron_expression m, job_token = token,
                 job_intervalMinutes = m, running = True\<rparr>],
       tasks := fmupd token (length (jobs s)) (tasks s)\<rparr>)"
  using assms
  by (simp add: subscribe_def parseInt_def schedule_accepts Let_def cong: option.case_cong)

lemma size_after_set_new:
  assumes "subscriptions s' = fmupd k v (subscriptions s)"
    and "fmlookup (subscriptions s) k = None"
  shows "subscriptions_size s' = Suc (subscriptions_size s)"
proof -
  have "k |\<notin>| fmdom (subscriptions s)" using assms(2) by (rule fmdom_notI)
  then show ?thesis
    by (simp add: subscriptions_size_def assms(1) fcard_finsert_disjoint)
qed

lemma size_after_set_old:
  assumes "subscriptions s' = fmupd k v (subscriptions s)"
    and "fmlookup (subscriptions s) k = Some w"
  shows "subscriptions_size s' = subscriptions_size s"
proof -
  have "k |\<in>| fmdom (subscriptions s)" using assms(2) by (rule fmdomI)
  then show ?thesis
    by (simp add: subscriptions_size_def assms(1) fcard_finsert_if)
qed

lemma size_after_delete_old:
  assumes "subscriptions s' = fmdrop k (subscriptions s)"
    and "fmlookup (subscriptions s) k = Some w"
  shows "Suc (subscriptions_size s') = subscriptions_size s"
proof -
  have "k |\<in>| fmdom (subscriptions s)" using assms(2) by (rule fmdomI)
  then have "Suc (fcard (fmdom (subscriptions s) |-| {|k|})) = fcard (fmdom (subscriptions s))"
    by (rule fcard_Suc_fminus1)
  then show ?thesis
    by (simp only: subscriptions_size_def assms(1) fmdom_drop)
qed

lemma cron_expression_15: "cron_expression 15 = ''*/15 * * * *''"
  by (simp add: cron_expression_def string_of_int_def digit_char_def)

text \<open>
  C6. From any relay state without a subscription for \<open>"abc"\<close>, and with a cron
  library that accepts \<open>*/15 * * * *\<close>, \<open>POST /api/subscribe\<close> with token \<open>"abc"\<close>
  and interval 15 answers 200, and \<open>GET /health\<close> then reports one subscription more
  than it reported before.
\<close>

theorem subscribe_abc_increments_health:
  assumes "validate ''*/15 * * * *''"
    and "fmlookup (subscriptions s) ''abc'' = None"
    and "subscribe validate \<lparr>req_token = Some ''abc'', req_intervalMinutes = Some 15\<rparr> now s
           = (res, s')"
  shows "status res = 200
    \<and> json (health t' s') = HealthBody ''ok'' (subscriptions_size s + 1) t'
    \<and> json (health t s) = HealthBody ''ok'' (subscriptions_size s) t"
proof -
  have "validate (cron_expression 15)" using assms(1) by (simp add: cron_expression_15)
  then have "subscribe validate \<lparr>req_token = Some ''abc'', req_intervalMinutes = Some 15\<rparr> now s =
    (\<lparr>status = 200, json = SuccessBody ''Subscribed successfully''\<rparr>,
     s\<lparr>subscriptions := fmupd ''abc'' \<lparr>intervalMinutes = 15, lastSent = now\<rparr> (subscriptions s),
       jobs := (case fmlookup (tasks s) ''abc'' of
                  None \<Rightarrow> jobs s
                | Some j \<Rightarrow> stop_job j (jobs s)) @
               [\<lparr>cronExpression = cron_expression 15, job_token = ''abc'',
                 job_intervalMinutes = 15, running = True\<rparr>],
       tasks := fmupd ''abc'' (length (jobs s)) (tasks s)\<rparr>)"
    by (intro subscribe_accepts) simp_all
  with assms(3) have
    "status res = 200"
    "subscriptions s' = fmupd ''abc'' \<lparr>intervalMinutes = 15, lastSent = now\<rparr> (subscriptions s)"
    by auto
  then show ?thesis using assms(2)
    by (simp add: health_def size_after_set_new)
qed

theorem subscribe_abc_increments_health_witness:
  "fmlookup (subscriptions relay_init) ''abc'' = None
   \<and> status (fst (subscribe (\<lambda>e. e = ''*/15 * * * *'')
         \<lparr>req_token = Some ''abc'', req_intervalMinutes = Some 15\<rparr> 1000 relay_init)) = 200
   \<and> json (health 2000 (snd (subscribe (\<lambda>e. e = ''*/15 * * * *'')
         \<lparr>req_token = Some ''abc'', req_intervalMinutes = Some 15\<rparr> 1000 relay_init)))
       = HealthBody ''ok'' 1 2000"
  using subscribe_abc_increments_health [where validate = "\<lambda>e. e = ''*/15 * * * *''"
      and s = relay_init and now = 1000 and t' = 2000,
      OF _ _ prod.collapse [symmetric]]
  by (simp add: relay_init_def subscriptions_size_def)

text \<open>
  C7. For a stored subscription, a delivery that fails with
  \<open>messaging/invalid-registration-token\<close> or
  \<open>messaging/registration-token-not-registered\<close> deletes the subscription and does
  nothing else (nothing is delivered, and \<open>sendNotification\<close> has no response to
  give), so \<open>GET /health\<close> reports one subscription fewer; a delivery that fails with
  any other error leaves the relay state as it was.
\<close>

theorem invalid_token_deletes_subscription:
  assumes "fmlookup (subscriptions s) token = Some sub"
  shows "(code = ''messaging/invalid-registration-token''
          \<or> code = ''messaging/registration-token-not-registered'' \<longrightarrow>
            sendNotification token m (Rejected (Some code)) t1 t2 s
              = s\<lparr>subscriptions := fmdrop token (subscriptions s)\<rparr>
            \<and> fmlookup (subscriptions (sendNotification token m (Rejected (Some code)) t1 t2 s)) token
                = None
            \<and> json (health t (sendNotification token m (Rejected (Some code)) t1 t2 s))
                = HealthBody ''ok'' (subscriptions_size s - 1) t
            \<and> 0 < subscriptions_size s)
    \<and> (err \<noteq> Some ''messaging/invalid-registration-token''
        \<and> err \<noteq> Some ''messaging/registration-token-not-registered'' \<longrightarrow>
            sendNotification token m (Rejected err) t1 t2 s = s)"
proof -
  let ?s' = "s\<lparr>subscriptions := fmdrop token (subscriptions s)\<rparr>"
  have "Suc (subscriptions_size ?s') = subscriptions_size s"
    using assms by (intro size_after_delete_old) simp_all
  then have "subscriptions_size ?s' = subscriptions_size s - 1" "0 < subscriptions_size s"
    by simp_all
  then show ?thesis
    by (auto simp add: sendNotification_def health_def)
qed

theorem invalid_token_deletes_subscription_witness:
  "fmlookup (subscriptions
      (relay_init\<lparr>subscriptions := fmupd ''abc'' \<lparr>intervalMinutes = 15, lastSent = 0\<rparr> fmempty\<rparr>))
      ''abc'' = Some \<lparr>intervalMinutes = 15, lastSent = 0\<rparr>
   \<and> json (health 9 (sendNotification ''abc'' 15
        (Rejected (Some ''messaging/registration-token-not-registered'')) 5 6
        (relay_init\<lparr>subscriptions := fmupd ''abc'' \<lparr>intervalMinutes = 15, lastSent = 0\<rparr> fmempty\<rparr>)))
      = HealthBody ''ok'' 0 9
   \<and> sendNotification ''abc'' 15 (Rejected (Some ''messaging/internal-error'')) 5 6
        (relay_init\<lparr>subscriptions := fmupd ''abc'' \<lparr>intervalMinutes = 15, lastSent = 0\<rparr> fmempty\<rparr>)
      = relay_init\<lparr>subscriptions := fmupd ''abc'' \<lparr>intervalMinutes = 15, lastSent = 0\<rparr> fmempty\<rparr>"
  using invalid_token_deletes_subscription [where token = "''abc''" and m = 15
      and s = "relay_init\<lparr>subscriptions := fmupd ''abc'' \<lparr>intervalMinutes = 15, lastSent = 0\<rparr> fmempty\<rparr>"
      and sub = "\<lparr>intervalMinutes = 15, lastSent = 0\<rparr>"
      and code = "''messaging/registration-token-not-registered''"
      and err = "Some ''messaging/internal-error''" and t = 9 and ?t1.0 = 5 and ?t2.0 = 6]
  by (simp add: relay_init_def subscriptions_size_def sendNotification_def health_def
        fcard_fempty)

text \<open>
  C9. \<open>POST /api/unsubscribe\<close> for a subscribed token answers 200 and removes the
  token from \<open>subscriptions\<close>; the jobs and the task table are untouched, and a
  running job of that token still calls \<open>sendNotification\<close> for it at its next tick.
\<close>

theorem unsubscribe_keeps_cron_job:
  assumes "fmlookup (subscriptions s) token = Some sub" and "token \<noteq> []"
    and "unsubscribe \<lparr>req_token = Some token, req_intervalMinutes = x\<rparr> s = (res, s')"
  shows "status res = 200
    \<and> s' = s\<lparr>subscriptions := fmdrop token (subscriptions s)\<rparr>
    \<and> fmlookup (subscriptions s') token = None
    \<and> jobs s' = jobs s \<and> tasks s' = tasks s \<and> delivered s' = delivered s
    \<and> (j < length (jobs s) \<and> running (jobs s ! j) \<and> job_token (jobs s ! j) = token \<longrightarrow>
         cron_tick j outcome t1 t2 s'
           = sendNotification token (job_intervalMinutes (jobs s ! j)) outcome t1 t2 s')"
  using assms by (auto simp add: unsubscribe_def cron_tick_def)

theorem unsubscribe_keeps_cron_job_witness:
  "fmlookup (subscriptions
      \<lparr>subscriptions = fmupd ''abc'' \<lparr>intervalMinutes = 15, lastSent = 0\<rparr> fmempty,
       jobs = [\<lparr>cronExpression = ''*/15 * * * *'', job_token = ''abc'',
                job_intervalMinutes = 15, running = True\<rparr>],
       tasks = fmupd ''abc'' 0 fmempty, delivered = []\<rparr>) ''abc''
     = Some \<lparr>intervalMinutes = 15, lastSent = 0\<rparr>
   \<and> ''abc'' \<noteq> []
   \<and> status (fst (unsubscribe \<lparr>req_token = Some ''abc'', req_intervalMinutes = None\<rparr>
      \<lparr>subscriptions = fmupd ''abc'' \<lparr>intervalMinutes = 15, lastSent = 0\<rparr> fmempty,
       jobs = [\<lparr>cronExpression = ''*/15 * * * *'', job_token = ''abc'',
                job_intervalMinutes = 15, running = True\<rparr>],
       tasks = fmupd ''abc'' 0 fmempty, delivered = []\<rparr>)) = 200
   \<and> delivered (cron_tick 0 (Resolved ''id-1'') 7 8
        (snd (unsubscribe \<lparr>req_token = Some ''abc'', req_intervalMinutes = None\<rparr>
      \<lparr>subscriptions = fmupd ''abc'' \<lparr>intervalMinutes = 15, lastSent = 0\<rparr> fmempty,
       jobs = [\<lparr>cronExpression = ''*/15 * * * *'', job_token = ''abc'',
                job_intervalMinutes = 15, running = True\<rparr>],
       tasks = fmupd ''abc'' 0 fmempty, delivered = []\<rparr>)))
     = [build_message ''abc'' 15 7]"
  using unsubscribe_keeps_cron_job [where token = "''abc''" and j = 0
      and outcome = "Resolved ''id-1''" and ?t1.0 = 7 and ?t2.0 = 8
      and sub = "\<lparr>intervalMinutes = 15, lastSent = 0\<rparr>" and x = None
      and s = "\<lparr>subscriptions = fmupd ''abc'' \<lparr>intervalMinutes = 15, lastSent = 0\<rparr> fmempty,
       jobs = [\<lparr>cronExpression = ''*/15 * * * *'', job_token = ''abc'',
                job_intervalMinutes = 15, running = True\<rparr>],
       tasks = fmupd ''abc'' 0 fmempty, delivered = []\<rparr>",
      OF _ _ prod.collapse [symmetric]]
  by (simp add: unsubscribe_def cron_tick_def sendNotification_def)

text \<open>
  C10. Two accepted \<open>POST /api/subscribe\<close> for the same token, one after the
  other: the token has one subscription, with the second interval; \<open>GET /health\<close>
  reports the same count after the second call as after the first; the job the first
  call created is stopped, and the task table names a new running job with the second
  interval.
\<close>

theorem subscribe_twice_same_token:
  assumes "token \<noteq> []" and "m1 \<noteq> 0" and "m2 \<noteq> 0"
    and "validate (cron_expression m1)" and "validate (cron_expression m2)"
    and "subscribe validate \<lparr>req_token = Some token, req_intervalMinutes = Some m1\<rparr> now1 s
           = (res1, s1)"
    and "subscribe validate \<lparr>req_token = Some token, req_intervalMinutes = Some m2\<rparr> now2 s1
           = (res2, s2)"
  shows "status res1 = 200 \<and> status res2 = 200
    \<and> fmlookup (subscriptions s2) token = Some \<lparr>intervalMinutes = m2, lastSent = now2\<rparr>
    \<and> subscriptions_size s2 = subscriptions_size s1
    \<and> json (health t s2) = json (health t s1)
    \<and> fmlookup (tasks s1) token = Some (length (jobs s))
    \<and> jobs s1 ! length (jobs s)
         = \<lparr>cronExpression = cron_expression m1, job_token = token,
            job_intervalMinutes = m1, running = True\<rparr>
    \<and> jobs s2 ! length (jobs s)
         = \<lparr>cronExpression = cron_expression m1, job_token = token,
            job_intervalMinutes = m1, running = False\<rparr>
    \<and> fmlookup (tasks s2) token = Some (Suc (length (jobs s)))
    \<and> jobs s2 ! Suc (length (jobs s))
         = \<lparr>cronExpression = cron_expression m2, job_token = token,
            job_intervalMinutes = m2, running = True\<rparr>
    \<and> length (jobs s2) = Suc (Suc (length (jobs s)))"
proof -
  let ?js = "case fmlookup (tasks s) token of None \<Rightarrow> jobs s | Some j \<Rightarrow> stop_job j (jobs s)"
  let ?j1 = "\<lparr>cronExpression = cron_expression m1, job_token = token,
              job_intervalMinutes = m1, running = True\<rparr>"
  have len: "length ?js = length (jobs s)"
    by (simp add: stop_job_def split: option.splits)
  have r1: "res1 = \<lparr>status = 200, json = SuccessBody ''Subscribed successfully''\<rparr>"
    and s1: "s1 = s\<lparr>subscriptions := fmupd token \<lparr>intervalMinutes = m1, lastSent = now1\<rparr> (subscriptions s),
                    jobs := ?js @ [?j1], tasks := fmupd token (length (jobs s)) (tasks s)\<rparr>"
    using assms(6) subscribe_accepts[where validate = validate and token = token and m = m1 and now = now1 and s = s] assms(1,2,4) by simp_all
  have r2: "res2 = \<lparr>status = 200, json = SuccessBody ''Subscribed successfully''\<rparr>"
    and s2: "s2 = s1\<lparr>subscriptions := fmupd token \<lparr>intervalMinutes = m2, lastSent = now2\<rparr> (subscriptions s1),
                    jobs := stop_job (length (jobs s)) (jobs s1) @
                      [\<lparr>cronExpression = cron_expression m2, job_token = token,
                        job_intervalMinutes = m2, running = True\<rparr>],
                    tasks := fmupd token (length (jobs s1)) (tasks s1)\<rparr>"
    using assms(7) subscribe_accepts[where validate = validate and token = token and m = m2 and now = now2 and s = s1] assms(1,3,5) by (simp_all add: s1)
  let ?j1' = "\<lparr>cronExpression = cron_expression m1, job_token = token,
               job_intervalMinutes = m1, running = False\<rparr>"
  let ?j2 = "\<lparr>cronExpression = cron_expression m2, job_token = token,
              job_intervalMinutes = m2, running = True\<rparr>"
  have js1: "jobs s1 = ?js @ [?j1]" by (subst s1) simp
  have tasks1: "tasks s1 = fmupd token (length (jobs s)) (tasks s)" by (subst s1) simp
  have len1: "length (jobs s1) = Suc (length (jobs s))" by (simp add: js1 len)
  have last_job: "(?js @ [x]) ! length (jobs s) = x" for x
    using len by (metis nth_append_length)
  have set_last: "(?js @ [x])[length (jobs s) := y] = ?js @ [y]" for x y
    using len by (metis list_update_length)
  have stopped: "stop_job (length (jobs s)) (jobs s1) = ?js @ [?j1']"
    by (simp add: stop_job_def js1 len last_job set_last)
  have "jobs s2 = stop_job (length (jobs s)) (jobs s1) @ [?j2]" by (subst s2) simp
  then have js2: "jobs s2 = ?js @ [?j1', ?j2]" by (simp only: stopped append.simps append_assoc)
  have tasks2: "tasks s2 = fmupd token (Suc (length (jobs s))) (tasks s1)"
    by (subst s2) (simp add: len1)
  have subs2: "subscriptions s2 =
      fmupd token \<lparr>intervalMinutes = m2, lastSent = now2\<rparr> (subscriptions s1)"
    by (subst s2) simp
  have subs1: "fmlookup (subscriptions s1) token = Some \<lparr>intervalMinutes = m1, lastSent = now1\<rparr>"
    by (subst s1) simp
  have size: "subscriptions_size s2 = subscriptions_size s1"
    using subs2 subs1 by (rule size_after_set_old)
  have first_job: "(?js @ [x, y]) ! length (jobs s) = x" for x y
    using len by (metis nth_append_length)
  have second_job: "(?js @ [x, y]) ! Suc (length (jobs s)) = y" for x y
  proof -
    have "((?js @ [x]) @ [y]) ! length (?js @ [x]) = y" by (rule nth_append_length)
    then show ?thesis by (simp add: len)
  qed
  have "status res1 = 200" "status res2 = 200" by (simp_all add: r1 r2)
  moreover have "fmlookup (subscriptions s2) token = Some \<lparr>intervalMinutes = m2, lastSent = now2\<rparr>"
    by (simp add: subs2)
  moreover have "json (health t s2) = json (health t s1)" by (simp add: health_def size)
  moreover have "fmlookup (tasks s1) token = Some (length (jobs s))" by (simp add: tasks1)
  moreover have "jobs s1 ! length (jobs s) = ?j1" by (simp only: js1 last_job)
  moreover have "jobs s2 ! length (jobs s) = ?j1'" by (simp only: js2 first_job)
  moreover have "fmlookup (tasks s2) token = Some (Suc (length (jobs s)))" by (simp add: tasks2)
  moreover have "jobs s2 ! Suc (length (jobs s)) = ?j2" by (simp only: js2 second_job)
  moreover have "length (jobs s2) = Suc (Suc (length (jobs s)))" by (simp add: js2 len)
  ultimately show ?thesis using size by simp
qed

theorem subscribe_twice_same_token_witness:
  "''abc'' \<noteq> [] \<and> (15::int) \<noteq> 0 \<and> (30::int) \<noteq> 0
   \<and> fmlookup (subscriptions (snd (subscribe (\<lambda>e. True)
          \<lparr>req_token = Some ''abc'', req_intervalMinutes = Some 30\<rparr> 2000
          (snd (subscribe (\<lambda>e. True)
             \<lparr>req_token = Some ''abc'', req_intervalMinutes = Some 15\<rparr> 1000 relay_init)))))
        ''abc'' = Some \<lparr>intervalMinutes = 30, lastSent = 2000\<rparr>
   \<and> json (health 3000 (snd (subscribe (\<lambda>e. True)
          \<lparr>req_token = Some ''abc'', req_intervalMinutes = Some 30\<rparr> 2000
          (snd (subscribe (\<lambda>e. True)
             \<lparr>req_token = Some ''abc'', req_intervalMinutes = Some 15\<rparr> 1000 relay_init)))))
       = HealthBody ''ok'' 1 3000
   \<and> map running (jobs (snd (subscribe (\<lambda>e. True)
          \<lparr>req_token = Some ''abc'', req_intervalMinutes = Some 30\<rparr> 2000
          (snd (subscribe (\<lambda>e. True)
             \<lparr>req_token = Some ''abc'', req_intervalMinutes = Some 15\<rparr> 1000 relay_init)))))
       = [False, True]"
  using subscribe_twice_same_token [where validate = "\<lambda>e. True" and token = "''abc''"
      and ?m1.0 = 15 and ?m2.0 = 30 and ?now1.0 = 1000 and ?now2.0 = 2000 and s = relay_init
      and t = 3000,
      OF _ _ _ _ _ prod.collapse [symmetric] prod.collapse [symmetric]]
  by (simp add: relay_init_def subscribe_def scheduleNotification_def parseInt_def stop_job_def
        health_def subscriptions_size_def fcard_finsert_if fcard_fempty)

end
